theory Spec2Isabelle
  imports Main "HOL-Library.Signed_Division" "HOL-Library.Sublist"
begin

section \<open>Data model (main.go, lines 50-110)\<close>

text \<open>
  The screen of the browser. Go's \<open>iota\<close> constants of type \<open>state\<close> become the
  constructors of a datatype, in the order of the source.
\<close>

datatype state =
    stateRepoUpdate
  | stateRepoList
  | stateChartList
  | stateVersionList
  | stateDownload
  | stateError
  | stateComplete

text \<open>
  Go's \<open>int\<close> is modelled as \<open>int\<close>. Every integer the program computes is a cursor,
  an index or a slice length plus at most \<open>pageSize\<close>, and the guards of \<open>Update\<close>
  compare against slice lengths before every increment, so no value leaves the 64-bit
  range on a slice that fits in memory. Division is Go's: it truncates towards zero
  (\<open>sdiv\<close>, \<open>smod\<close>).
\<close>

definition pageSize :: int where
  "pageSize = 10"

record HelmRepo =
  Name :: string
  URL :: string

record HelmChart =
  Name :: string
  Version :: string
  AppVersion :: string
  Description :: string

record HelmVersion =
  Name :: string
  Version :: string
  AppVersion :: string
  Created :: string

record model =
  state :: state
  repos :: "HelmRepo list"
  charts :: "HelmChart list"
  versions :: "HelmVersion list"
  selectedRepo :: int
  selectedChart :: int
  selectedVersion :: int
  cursor :: int
  loading :: bool
  error :: string
  message :: string

text \<open>\<open>initialModel\<close>: every field not named in the literal has Go's zero value.\<close>

definition initialModel :: model where
  "initialModel =
     \<lparr> state = stateRepoUpdate, repos = [], charts = [], versions = [],
       selectedRepo = 0, selectedChart = 0, selectedVersion = 0, cursor = 0,
       loading = True, error = [], message = [] \<rparr>"

section \<open>Pagination helpers (main.go, lines 117-141)\<close>

definition getCurrentPage :: "model \<Rightarrow> int" where
  "getCurrentPage m = cursor m sdiv pageSize"

definition getPageStart :: "model \<Rightarrow> int" where
  "getPageStart m = getCurrentPage m * pageSize"

definition getPageEnd :: "model \<Rightarrow> int \<Rightarrow> int" where
  "getPageEnd m totalItems =
     (let end = getPageStart m + pageSize
      in if end > totalItems then totalItems else end)"

definition getCursorInPage :: "model \<Rightarrow> int" where
  "getCursorInPage m = cursor m smod pageSize"

section \<open>Messages and commands (main.go, lines 143-246)\<close>

text \<open>
  A \<open>tea.KeyMsg\<close> is represented by the value of its \<open>String()\<close> method, the only
  thing \<open>Update\<close> reads of it. \<open>otherMsg\<close> stands for every message type that the type
  switch of \<open>Update\<close> has no case for.
\<close>

datatype msg =
    KeyMsg string
  | repoUpdateMsg
  | reposLoadedMsg "HelmRepo list"
  | chartsLoadedMsg "HelmChart list"
  | versionsLoadedMsg "HelmVersion list"
  | downloadCompleteMsg string
  | errorMsg string
  | otherMsg

text \<open>
  A \<open>tea.Cmd\<close> is a closure in the source; the model keeps which closure was built and
  with which arguments. \<open>Quit\<close> is \<open>tea.Quit\<close>.
\<close>

datatype cmd =
    Quit
  | LoadRepos
  | LoadCharts string
  | LoadVersions string
  | DownloadValues string string

text \<open>A slice index outside \<open>0 \<le> i < len\<close> panics in Go.\<close>

datatype panic = IndexOutOfRange

definition len :: "'a list \<Rightarrow> int" where
  "len xs = int (length xs)"

definition at :: "'a list \<Rightarrow> int \<Rightarrow> panic + 'a" where
  "at xs i = (if 0 \<le> i \<and> i < len xs then Inr (xs ! nat i) else Inl IndexOutOfRange)"

subsection \<open>\<open>strconv.Atoi\<close> and \<open>strings.Split\<close> of the Go standard library\<close>

definition digitVal :: "char \<Rightarrow> int option" where
  "digitVal c =
     (let n = of_char c :: nat
      in if 48 \<le> n \<and> n \<le> 57 then Some (int n - 48) else None)"

fun digitsVal :: "int \<Rightarrow> string \<Rightarrow> int option" where
  "digitsVal n [] = Some n"
| "digitsVal n (c # cs) =
     (case digitVal c of None \<Rightarrow> None | Some d \<Rightarrow> digitsVal (n * 10 + d) cs)"

text \<open>
  Base 10, an optional sign, at least one digit, nothing else; a value outside the
  64-bit range is an error as well. \<open>None\<close> is a non-nil \<open>err\<close>.
\<close>

definition Atoi :: "string \<Rightarrow> int option" where
  "Atoi s =
     (case s of
        [] \<Rightarrow> None
      | c # cs \<Rightarrow>
          (let body = (if c = CHR ''-'' \<or> c = CHR ''+'' then cs else s)
           in if body = [] then None
              else (case digitsVal 0 body of
                      None \<Rightarrow> None
                    | Some n \<Rightarrow>
                        (let v = (if c = CHR ''-'' then - n else n)
                         in if v < - (2 ^ 63) \<or> 2 ^ 63 - 1 < v then None else Some v))))"

text \<open>
  \<open>strings.Split s sep\<close> for a one-byte separator: the pieces between the separators,
  never an empty slice.
\<close>

fun Split :: "string \<Rightarrow> char \<Rightarrow> string list" where
  "Split [] sep = [[]]"
| "Split (c # cs) sep =
     (if c = sep then [] # Split cs sep
      else (let ps = Split cs sep in (c # hd ps) # tl ps))"

subsection \<open>\<open>downloadValues\<close> (lines 224-246)\<close>

text \<open>
  The closure runs one subprocess and writes one file. Both are outside the program:
  \<open>showValues\<close> is the outcome of \<open>helm show values\<close> (\<open>Inl\<close> the text of \<open>err\<close>,
  \<open>Inr\<close> the bytes of standard output) and \<open>writeFile\<close> the outcome of
  \<open>os.WriteFile\<close> for a file name and contents (\<open>Some\<close> the text of \<open>err\<close>).
\<close>

definition artifactFilename :: "string \<Rightarrow> string \<Rightarrow> string" where
  "artifactFilename chartName version =
     (let chartParts = Split chartName (CHR ''/'');
          chartBaseName = chartParts ! (length chartParts - 1)
      in chartBaseName @ ''-'' @ version @ ''-default-values.yaml'')"

definition downloadValues ::
  "string \<Rightarrow> string \<Rightarrow> (string + string) \<Rightarrow> (string \<Rightarrow> string \<Rightarrow> string option) \<Rightarrow> msg" where
  "downloadValues chartName version showValues writeFile =
     (case showValues of
        Inl err \<Rightarrow> errorMsg (''Failed to get chart values: '' @ err)
      | Inr values \<Rightarrow>
          (let filename = artifactFilename chartName version
           in case writeFile filename values of
                Some err \<Rightarrow> errorMsg (''Failed to write values file: '' @ err)
              | None \<Rightarrow> downloadCompleteMsg filename))"

section \<open>\<open>Update\<close> (main.go, lines 248-418)\<close>

text \<open>
  The result is \<open>Inl\<close> when the source panics and otherwise the returned model with the
  returned command (\<open>None\<close> for \<open>nil\<close>). One definition per case of the key switch; a
  case that ends without \<open>return\<close> falls to the final \<open>return m, nil\<close>.
\<close>

text \<open>Lines 256-272: \<open>"up", "k"\<close>.\<close>

definition keyUp :: "model \<Rightarrow> model" where
  "keyUp m =
     (case state m of
        stateRepoList \<Rightarrow> (if cursor m > 0 then m\<lparr>cursor := cursor m - 1\<rparr> else m)
      | stateChartList \<Rightarrow> (if cursor m > 0 then m\<lparr>cursor := cursor m - 1\<rparr> else m)
      | stateVersionList \<Rightarrow> (if cursor m > 0 then m\<lparr>cursor := cursor m - 1\<rparr> else m)
      | _ \<Rightarrow> m)"

text \<open>Lines 274-290: \<open>"down", "j"\<close>.\<close>

definition keyDown :: "model \<Rightarrow> model" where
  "keyDown m =
     (case state m of
        stateRepoList \<Rightarrow>
          (if cursor m < len (repos m) - 1 then m\<lparr>cursor := cursor m + 1\<rparr> else m)
      | stateChartList \<Rightarrow>
          (if cursor m < len (charts m) - 1 then m\<lparr>cursor := cursor m + 1\<rparr> else m)
      | stateVersionList \<Rightarrow>
          (if cursor m < len (versions m) - 1 then m\<lparr>cursor := cursor m + 1\<rparr> else m)
      | _ \<Rightarrow> m)"

text \<open>
  The three return statements that issue a fetch read the selected element of the
  slice after the model has been updated.
\<close>

definition issueLoadCharts :: "model \<Rightarrow> panic + (model \<times> cmd option)" where
  "issueLoadCharts m =
     (case at (repos m) (selectedRepo m) of
        Inl p \<Rightarrow> Inl p
      | Inr r \<Rightarrow> Inr (m, Some (LoadCharts (HelmRepo.Name r))))"

definition issueLoadVersions :: "model \<Rightarrow> panic + (model \<times> cmd option)" where
  "issueLoadVersions m =
     (case at (charts m) (selectedChart m) of
        Inl p \<Rightarrow> Inl p
      | Inr c \<Rightarrow> Inr (m, Some (LoadVersions (HelmChart.Name c))))"

definition issueDownloadValues :: "model \<Rightarrow> panic + (model \<times> cmd option)" where
  "issueDownloadValues m =
     (case at (versions m) (selectedVersion m) of
        Inl p \<Rightarrow> Inl p
      | Inr v \<Rightarrow> Inr (m, Some (DownloadValues (HelmVersion.Name v) (HelmVersion.Version v))))"

text \<open>Lines 292-322: \<open>"enter", " "\<close>.\<close>

definition keyEnter :: "model \<Rightarrow> panic + (model \<times> cmd option)" where
  "keyEnter m =
     (case state m of
        stateRepoList \<Rightarrow>
          (if len (repos m) > 0
           then issueLoadCharts
                  (m\<lparr>selectedRepo := cursor m, cursor := 0, loading := True,
                     state := stateChartList\<rparr>)
           else Inr (m, None))
      | stateChartList \<Rightarrow>
          (if len (charts m) > 0
           then issueLoadVersions
                  (m\<lparr>selectedChart := cursor m, cursor := 0, loading := True,
                     state := stateVersionList\<rparr>)
           else Inr (m, None))
      | stateVersionList \<Rightarrow>
          (if len (versions m) > 0
           then issueDownloadValues
                  (m\<lparr>selectedVersion := cursor m, loading := True, state := stateDownload\<rparr>)
           else Inr (m, None))
      | stateComplete \<Rightarrow> Inr (m, Some Quit)
      | _ \<Rightarrow> Inr (m, None))"

text \<open>Lines 324-338: \<open>"backspace", "esc"\<close>. \<open>nil\<close> is the empty list.\<close>

definition keyBack :: "model \<Rightarrow> model \<times> cmd option" where
  "keyBack m =
     (case state m of
        stateChartList \<Rightarrow>
          (m\<lparr>state := stateRepoList, cursor := selectedRepo m, charts := []\<rparr>, None)
      | stateVersionList \<Rightarrow>
          (m\<lparr>state := stateChartList, cursor := selectedChart m, versions := []\<rparr>, None)
      | stateComplete \<Rightarrow> (m, Some Quit)
      | _ \<Rightarrow> (m, None))"

text \<open>Lines 349-381: the switch on the screen inside the number shortcut.\<close>

definition numberShortcut :: "model \<Rightarrow> int \<Rightarrow> panic + (model \<times> cmd option)" where
  "numberShortcut m num =
     (case state m of
        stateRepoList \<Rightarrow>
          (let pageStart = getPageStart m; absoluteIndex = pageStart + num - 1
           in if absoluteIndex < len (repos m)
              then issueLoadCharts
                     (m\<lparr>selectedRepo := absoluteIndex, cursor := 0, loading := True,
                        state := stateChartList\<rparr>)
              else Inr (m, None))
      | stateChartList \<Rightarrow>
          (let pageStart = getPageStart m; absoluteIndex = pageStart + num - 1
           in if absoluteIndex < len (charts m)
              then issueLoadVersions
                     (m\<lparr>selectedChart := absoluteIndex, cursor := 0, loading := True,
                        state := stateVersionList\<rparr>)
              else Inr (m, None))
      | stateVersionList \<Rightarrow>
          (let pageStart = getPageStart m; absoluteIndex = pageStart + num - 1
           in if absoluteIndex < len (versions m)
              then issueDownloadValues
                     (m\<lparr>selectedVersion := absoluteIndex, loading := True,
                        state := stateDownload\<rparr>)
              else Inr (m, None))
      | _ \<Rightarrow> Inr (m, None))"

text \<open>Lines 340-383: \<open>default\<close> of the key switch.\<close>

definition keyDefault :: "model \<Rightarrow> string \<Rightarrow> panic + (model \<times> cmd option)" where
  "keyDefault m k =
     (if state m = stateComplete then Inr (m, Some Quit)
      else if length k = 1
      then (case Atoi k of
              None \<Rightarrow> Inr (m, None)
            | Some num \<Rightarrow>
                (if num \<ge> 1 \<and> num \<le> pageSize then numberShortcut m num
                 else Inr (m, None)))
      else Inr (m, None))"

text \<open>Lines 250-384: the switch on \<open>msg.String()\<close>.\<close>

definition updateKey :: "model \<Rightarrow> string \<Rightarrow> panic + (model \<times> cmd option)" where
  "updateKey m k =
     (if k = ''ctrl+c'' \<or> k = ''q'' then Inr (m, Some Quit)
      else if k = ''up'' \<or> k = ''k'' then Inr (keyUp m, None)
      else if k = ''down'' \<or> k = ''j'' then Inr (keyDown m, None)
      else if k = ''enter'' \<or> k = '' '' then keyEnter m
      else if k = ''backspace'' \<or> k = ''esc'' then Inr (keyBack m)
      else keyDefault m k)"

fun Update :: "model \<Rightarrow> msg \<Rightarrow> panic + (model \<times> cmd option)" where
  "Update m (KeyMsg k) = updateKey m k"
| "Update m repoUpdateMsg = Inr (m\<lparr>loading := True\<rparr>, Some LoadRepos)"
| "Update m (reposLoadedMsg rs) =
     Inr (m\<lparr>repos := rs, loading := False, state := stateRepoList, cursor := 0\<rparr>, None)"
| "Update m (chartsLoadedMsg cs) =
     Inr (m\<lparr>charts := cs, loading := False, cursor := 0\<rparr>, None)"
| "Update m (versionsLoadedMsg vs) =
     Inr (m\<lparr>versions := vs, loading := False, cursor := 0\<rparr>, None)"
| "Update m (downloadCompleteMsg filename) =
     Inr (m\<lparr>loading := False, state := stateComplete,
            message := ''Successfully downloaded: '' @ filename\<rparr>, None)"
| "Update m (errorMsg e) =
     Inr (m\<lparr>loading := False, state := stateError, error := e\<rparr>, None)"
| "Update m otherMsg = Inr (m, None)"

text \<open>
  The event loop applies the messages one at a time, in arrival order, and stops at a
  panic or when \<open>Update\<close> returns \<open>tea.Quit\<close>.
\<close>

fun run :: "model \<Rightarrow> msg list \<Rightarrow> panic + model" where
  "run m [] = Inr m"
| "run m (x # xs) =
     (case Update m x of
        Inl p \<Rightarrow> Inl p
      | Inr (m', c) \<Rightarrow> (if c = Some Quit then Inr m' else run m' xs))"

section \<open>\<open>View\<close> (main.go, lines 420-623)\<close>

text \<open>
  Each list screen has one slice of its own: \<open>m.repos\<close> on \<open>stateRepoList\<close>,
  \<open>m.charts\<close> on \<open>stateChartList\<close>, \<open>m.versions\<close> on \<open>stateVersionList\<close>. The
  other screens have no list.
\<close>

definition displayedLen :: "model \<Rightarrow> int" where
  "displayedLen m =
     (case state m of
        stateRepoList \<Rightarrow> len (repos m)
      | stateChartList \<Rightarrow> len (charts m)
      | stateVersionList \<Rightarrow> len (versions m)
      | _ \<Rightarrow> 0)"

text \<open>
  \<open>strings.TrimPrefix\<close>, with which \<open>View\<close> shortens a chart name for display
  (lines 500 and 533): \<open>strings.TrimPrefix(chart.Name, repo.Name + "/")\<close>.
\<close>

definition TrimPrefix :: "string \<Rightarrow> string \<Rightarrow> string" where
  "TrimPrefix s p = (if take (length p) s = p then drop (length p) s else s)"

text \<open>
  \<open>View\<close> returns one string. The model keeps what that string is built from and
  leaves out the title, the colours, the column padding and the help lines: the line
  written for the screen (\<open>heading\<close>), the rows of the list, and the pagination line.
\<close>

datatype heading =
    Updating
  | LoadingRepos
  | SelectRepo
  | LoadingCharts
  | ChartsIn string
  | LoadingVersions
  | VersionsOf string
  | Downloading
  | Completed string
  | Failed string

text \<open>
  A row shows the number \<open>i + 1\<close>, the cells of element \<open>i\<close>, the badge of the first
  version (\<open>latest\<close>) and the marker of the row with \<open>i == m.cursor\<close> (\<open>marked\<close>).
\<close>

record row =
  number :: int
  cells :: "string list"
  latest :: bool
  marked :: bool

datatype summary =
    NoSummary
  | Total int
  | PageOf int int int

text \<open>Lines 445-463: the row of a repository.\<close>

definition repoRow :: "model \<Rightarrow> int \<Rightarrow> HelmRepo \<Rightarrow> panic + row" where
  "repoRow m i r =
     Inr \<lparr> number = i + 1, cells = [HelmRepo.Name r, URL r], latest = False,
           marked = (i = cursor m) \<rparr>"

text \<open>
  Lines 494-512: the row of a chart. Line 500 reads \<open>m.repos[m.selectedRepo]\<close> in every
  iteration.
\<close>

definition chartRow :: "model \<Rightarrow> int \<Rightarrow> HelmChart \<Rightarrow> panic + row" where
  "chartRow m i c =
     (case at (repos m) (selectedRepo m) of
        Inl p \<Rightarrow> Inl p
      | Inr r \<Rightarrow>
          Inr \<lparr> number = i + 1,
                cells = [TrimPrefix (HelmChart.Name c) (HelmRepo.Name r @ ''/''),
                         ''v'' @ HelmChart.Version c],
                latest = False, marked = (i = cursor m) \<rparr>)"

text \<open>
  Lines 544-573: the row of a version. An empty application version is shown as a
  horizontal bar (the three bytes of U+2500).
\<close>

definition bar :: string where
  "bar = [char_of (226 :: nat), char_of (148 :: nat), char_of (128 :: nat)]"

definition versionRow :: "model \<Rightarrow> int \<Rightarrow> HelmVersion \<Rightarrow> panic + row" where
  "versionRow m i v =
     Inr \<lparr> number = i + 1,
           cells = [HelmVersion.Version v,
                    if HelmVersion.AppVersion v \<noteq> [] then HelmVersion.AppVersion v else bar],
           latest = (i = 0), marked = (i = cursor m) \<rparr>"

text \<open>
  The loop \<open>for i := start; i < end; i++\<close> of lines 444, 493 and 543 reads element
  \<open>i\<close> of the slice and writes the row \<open>f i x\<close> for it.
\<close>

function viewLoop ::
  "(int \<Rightarrow> 'a \<Rightarrow> panic + row) \<Rightarrow> 'a list \<Rightarrow> int \<Rightarrow> int \<Rightarrow> row list \<Rightarrow> panic + row list" where
  "viewLoop f xs i e rows =
     (if i < e
      then (case at xs i of
              Inl p \<Rightarrow> Inl p
            | Inr x \<Rightarrow>
                (case f i x of
                   Inl p \<Rightarrow> Inl p
                 | Inr r \<Rightarrow> viewLoop f xs (i + 1) e (rows @ [r])))
      else Inr rows)"
  by pat_completeness auto
termination
  by (relation "measure (\<lambda>(f, xs, i, e, rows). nat (e - i))") auto

text \<open>Lines 441-464, 490-513 and 540-574: the page bounds and the loop.\<close>

definition viewRows :: "(int \<Rightarrow> 'a \<Rightarrow> panic + row) \<Rightarrow> model \<Rightarrow> 'a list \<Rightarrow> panic + row list" where
  "viewRows f m xs = viewLoop f xs (getPageStart m) (getPageEnd m (len xs)) []"

text \<open>Lines 468-477, 517-526 and 578-587: the pagination line under the rows.\<close>

definition paginationInfo :: "model \<Rightarrow> int \<Rightarrow> summary" where
  "paginationInfo m n =
     (if n > pageSize
      then (let totalPages = (n + pageSize - 1) sdiv pageSize;
                currentPage = getCurrentPage m + 1
            in PageOf currentPage totalPages n)
      else if n > 1 then Total n
      else NoSummary)"

text \<open>
  The switch on the screen (lines 427-603). A list screen writes its list only when
  \<open>m.loading\<close> is false; the chart and version screens first read the selected
  repository and chart for their heading, which panics when the index is out of range.
\<close>

definition View :: "model \<Rightarrow> panic + (heading \<times> row list \<times> summary)" where
  "View m =
     (case state m of
        stateRepoUpdate \<Rightarrow> Inr (Updating, [], NoSummary)
      | stateRepoList \<Rightarrow>
          (if loading m then Inr (LoadingRepos, [], NoSummary)
           else (case viewRows (repoRow m) m (repos m) of
                   Inl p \<Rightarrow> Inl p
                 | Inr rows \<Rightarrow> Inr (SelectRepo, rows, paginationInfo m (len (repos m)))))
      | stateChartList \<Rightarrow>
          (if loading m then Inr (LoadingCharts, [], NoSummary)
           else (case at (repos m) (selectedRepo m) of
                   Inl p \<Rightarrow> Inl p
                 | Inr r \<Rightarrow>
                     (case viewRows (chartRow m) m (charts m) of
                        Inl p \<Rightarrow> Inl p
                      | Inr rows \<Rightarrow>
                          Inr (ChartsIn (HelmRepo.Name r), rows,
                               paginationInfo m (len (charts m))))))
      | stateVersionList \<Rightarrow>
          (if loading m then Inr (LoadingVersions, [], NoSummary)
           else (case at (charts m) (selectedChart m) of
                   Inl p \<Rightarrow> Inl p
                 | Inr c \<Rightarrow>
                     (case at (repos m) (selectedRepo m) of
                        Inl p \<Rightarrow> Inl p
                      | Inr r \<Rightarrow>
                          (case viewRows (versionRow m) m (versions m) of
                             Inl p \<Rightarrow> Inl p
                           | Inr rows \<Rightarrow>
                               Inr (VersionsOf
                                      (TrimPrefix (HelmChart.Name c) (HelmRepo.Name r @ ''/'')),
                                    rows, paginationInfo m (len (versions m)))))))
      | stateDownload \<Rightarrow> Inr (Downloading, [], NoSummary)
      | stateComplete \<Rightarrow> Inr (Completed (message m), [], NoSummary)
      | stateError \<Rightarrow> Inr (Failed (error m), [], NoSummary))"

section \<open>Concrete sessions used below\<close>

definition argo :: HelmRepo where
  "argo = \<lparr> HelmRepo.Name = ''argo'', URL = ''https://argoproj.github.io/argo-helm'' \<rparr>"

definition argoCd :: HelmChart where
  "argoCd = \<lparr> HelmChart.Name = ''argo/argo-cd'', Version = ''5.46.8'',
              AppVersion = ''v2.8.4'', Description = [] \<rparr>"

text \<open>A chart list of 25 entries with the cursor on index 23.\<close>

definition scenarioB :: model where
  "scenarioB = initialModel \<lparr> state := stateChartList, repos := [argo],
     charts := replicate 25 argoCd, cursor := 23, loading := False \<rparr>"

definition repo :: "string \<Rightarrow> HelmRepo" where
  "repo n = \<lparr> HelmRepo.Name = n, URL = [] \<rparr>"

text \<open>A repository list of exactly ten entries, loaded, with the cursor on the first.\<close>

definition tenRepos :: "HelmRepo list" where
  "tenRepos = [repo ''r1'', repo ''r2'', repo ''r3'', repo ''r4'', repo ''r5'',
               repo ''r6'', repo ''r7'', repo ''r8'', repo ''r9'', repo ''r10'']"

definition tenRepoList :: model where
  "tenRepoList = initialModel \<lparr> state := stateRepoList, repos := tenRepos, loading := False \<rparr>"

text \<open>
  Two chart fetches in flight: a repository is selected, the user goes back while the
  charts load and selects again; the first fetch then fails.
\<close>

definition raceTrace :: "msg list" where
  "raceTrace = [repoUpdateMsg, reposLoadedMsg [argo], KeyMsg ''enter'', KeyMsg ''esc'',
                KeyMsg ''enter'', errorMsg ''Failed to search charts: exit status 1'']"

definition failedSession :: model where
  "failedSession = initialModel \<lparr> state := stateError, repos := [argo], loading := False,
     error := ''Failed to search charts: exit status 1'' \<rparr>"

text \<open>The chart screen right after a repository was selected: the fetch is in flight.\<close>

definition loadingCharts :: model where
  "loadingCharts = initialModel \<lparr> state := stateChartList, repos := [argo] \<rparr>"

text \<open>
  The repository screen reached by going back while the charts load: the loading flag
  is still set.
\<close>

definition backWhileLoading :: model where
  "backWhileLoading = initialModel \<lparr> state := stateRepoList, repos := [argo] \<rparr>"

text \<open>The session after \<open>helm repo update\<close> failed at start.\<close>

definition startFailed :: model where
  "startFailed = initialModel \<lparr> state := stateError, loading := False,
     error := ''Failed to update repos: exit status 1'' \<rparr>"

text \<open>The version screen of \<open>argo/argo-cd\<close> with two versions, and the session after the download.\<close>

definition versionsScreen :: model where
  "versionsScreen = initialModel \<lparr> state := stateVersionList, repos := [argo],
     charts := [argoCd],
     versions := [\<lparr> HelmVersion.Name = ''argo/argo-cd'', Version = ''5.46.8'',
                     AppVersion = ''v2.8.4'', Created = [] \<rparr>,
                  \<lparr> HelmVersion.Name = ''argo/argo-cd'', Version = ''5.46.7'',
                     AppVersion = ''v2.8.4'', Created = [] \<rparr>],
     loading := False \<rparr>"

definition completeSession :: model where
  "completeSession = versionsScreen \<lparr> state := stateComplete,
     message := ''Successfully downloaded: argo-cd-5.46.8-default-values.yaml'' \<rparr>"

section \<open>Pagination\<close>

lemma sdiv_ten_nonneg: "0 \<le> a \<Longrightarrow> a sdiv 10 = a div (10::int)"
  by (simp add: signed_divide_int_def sgn_if)

lemma getPageStart_nonneg: "0 \<le> cursor m \<Longrightarrow> getPageStart m = (cursor m div 10) * 10"
  by (simp add: getPageStart_def getCurrentPage_def sdiv_ten_nonneg pageSize_def)

lemma getPageStart_bounds:
  assumes "0 \<le> cursor m"
  shows "0 \<le> getPageStart m" and "getPageStart m \<le> cursor m"
    and "cursor m < getPageStart m + 10"
  using assms by (simp_all add: getPageStart_nonneg)

lemma getPageEnd_min: "getPageEnd m n = min (getPageStart m + 10) n"
  by (simp add: getPageEnd_def Let_def pageSize_def min_def)

text \<open>
  The row loop started inside the slice, with a row function that does not panic,
  never panics and writes one row for every index from \<open>i\<close> up to \<open>e\<close>.
\<close>

lemma viewLoop_rows:
  "\<forall>j x. \<exists>r. f j x = Inr r \<Longrightarrow> 0 \<le> i \<Longrightarrow> i \<le> e \<Longrightarrow> e \<le> len xs \<Longrightarrow>
   \<exists>rows'. viewLoop f xs i e rows = Inr rows' \<and> int (length rows') = int (length rows) + (e - i)"
proof (induction f xs i e rows rule: viewLoop.induct)
  case (1 f xs i e rows)
  show ?case
  proof (cases "i < e")
    case True
    then have a: "at xs i = Inr (xs ! nat i)"
      using "1.prems" by (simp add: at_def)
    obtain r where r: "f i (xs ! nat i) = Inr r"
      using "1.prems"(1) by blast
    have "\<exists>rows'. viewLoop f xs (i + 1) e (rows @ [r]) = Inr rows'
            \<and> int (length rows') = int (length (rows @ [r])) + (e - (i + 1))"
      using "1.IH" [OF True a r "1.prems"(1)] True "1.prems"(2-4) by simp
    then show ?thesis
      using True a r by (subst viewLoop.simps) auto
  next
    case False
    then show ?thesis using "1.prems" by (subst viewLoop.simps) simp
  qed
qed

lemma viewRows_count:
  assumes "\<forall>j x. \<exists>r. f j x = Inr r" and "0 \<le> cursor m" and "cursor m < len xs"
  shows "\<exists>rows. viewRows f m xs = Inr rows
           \<and> int (length rows) = getPageEnd m (len xs) - getPageStart m"
proof -
  have le: "getPageStart m \<le> getPageEnd m (len xs)"
    using getPageStart_bounds [OF assms(2)] assms(3) by (simp add: getPageEnd_min)
  have "\<exists>rows. viewLoop f xs (getPageStart m) (getPageEnd m (len xs)) [] = Inr rows
          \<and> int (length rows) = int (length ([] :: row list))
               + (getPageEnd m (len xs) - getPageStart m)"
    using getPageStart_bounds(1) [OF assms(2)] le assms(1)
    by (intro viewLoop_rows) (simp_all add: getPageEnd_min)
  then show ?thesis
    by (simp add: viewRows_def)
qed

lemma View_loading:
  "state m \<in> {stateRepoList, stateChartList, stateVersionList} \<Longrightarrow> loading m \<Longrightarrow>
   \<exists>h s. View m = Inr (h, [], s)"
  by (auto simp: View_def)

lemma View_rows:
  assumes lst: "state m \<in> {stateRepoList, stateChartList, stateVersionList}"
    and c: "0 \<le> cursor m" "cursor m < displayedLen m"
    and nl: "\<not> loading m"
    and sr: "state m \<noteq> stateRepoList \<longrightarrow> 0 \<le> selectedRepo m \<and> selectedRepo m < len (repos m)"
    and sc: "state m = stateVersionList \<longrightarrow>
               0 \<le> selectedChart m \<and> selectedChart m < len (charts m)"
  shows "\<exists>h rows s. View m = Inr (h, rows, s)
           \<and> int (length rows) = getPageEnd m (displayedLen m) - getPageStart m"
proof -
  consider "state m = stateRepoList" | "state m = stateChartList" | "state m = stateVersionList"
    using lst by auto
  then show ?thesis
  proof cases
    case 1
    have "\<exists>rows. viewRows (repoRow m) m (repos m) = Inr rows
            \<and> int (length rows) = getPageEnd m (len (repos m)) - getPageStart m"
      using c 1 by (intro viewRows_count) (simp_all add: repoRow_def displayedLen_def)
    then show ?thesis
      using 1 nl by (auto simp: View_def displayedLen_def)
  next
    case 2
    then have r: "at (repos m) (selectedRepo m) = Inr (repos m ! nat (selectedRepo m))"
      using sr by (simp add: at_def)
    have "\<exists>rows. viewRows (chartRow m) m (charts m) = Inr rows
            \<and> int (length rows) = getPageEnd m (len (charts m)) - getPageStart m"
      using c 2 by (intro viewRows_count) (simp_all add: chartRow_def r displayedLen_def)
    then show ?thesis
      using 2 nl r by (auto simp: View_def displayedLen_def)
  next
    case 3
    then have r: "at (repos m) (selectedRepo m) = Inr (repos m ! nat (selectedRepo m))"
      and ch: "at (charts m) (selectedChart m) = Inr (charts m ! nat (selectedChart m))"
      using sr sc by (simp_all add: at_def)
    have "\<exists>rows. viewRows (versionRow m) m (versions m) = Inr rows
            \<and> int (length rows) = getPageEnd m (len (versions m)) - getPageStart m"
      using c 3 by (intro viewRows_count) (simp_all add: versionRow_def displayedLen_def)
    then show ?thesis
      using 3 nl r ch by (auto simp: View_def displayedLen_def)
  qed
qed

text \<open>
  C2, as stated, at a session the program reaches: a repository is selected and the
  user goes back while the charts load. The repository screen then has one repository,
  the cursor on 0 and the page \<open>[0, 1)\<close>, but the loading flag is still set and
  \<open>View\<close> writes the loading line and no row.
\<close>

theorem C2_counterexample:
  "run initialModel [repoUpdateMsg, reposLoadedMsg [argo], KeyMsg ''enter'', KeyMsg ''esc'']
     = Inr backWhileLoading
   \<and> state backWhileLoading = stateRepoList
   \<and> displayedLen backWhileLoading = 1 \<and> cursor backWhileLoading = 0
   \<and> getPageStart backWhileLoading = 0 \<and> getPageEnd backWhileLoading 1 = 1
   \<and> View backWhileLoading = Inr (LoadingRepos, [], NoSummary)
   \<and> int (length ([] :: row list))
        \<noteq> getPageEnd backWhileLoading 1 - getPageStart backWhileLoading"
  by (simp add: backWhileLoading_def initialModel_def updateKey_def keyEnter_def keyBack_def
      issueLoadCharts_def at_def len_def argo_def displayedLen_def getPageStart_def
      getCurrentPage_def getPageEnd_def pageSize_def View_def)

text \<open>
  C2, amended. On a list screen whose sequence has length \<open>L\<close>, with a cursor \<open>c\<close>,
  \<open>0 \<le> c < L\<close>: the page starts at \<open>(c div 10) * 10\<close> and ends at
  \<open>min (pageStart + 10) L\<close>. While the loading flag is set \<open>View\<close> writes no row.
  When it is clear and the selected repository and chart that \<open>View\<close> reads for the
  heading are in range, \<open>View\<close> writes exactly \<open>pageEnd - pageStart\<close> rows. Both
  bounds are functions of the cursor alone: any two sessions with the same cursor have
  the same page.
\<close>

theorem C2_page_bounds:
  assumes "state m \<in> {stateRepoList, stateChartList, stateVersionList}"
    and "L = displayedLen m" and "0 \<le> cursor m" and "cursor m < L"
  shows "getPageStart m = (cursor m div 10) * 10
       \<and> getPageEnd m L = min (getPageStart m + 10) L
       \<and> (loading m \<longrightarrow> (\<exists>h s. View m = Inr (h, [], s)))
       \<and> (\<not> loading m
            \<and> (state m \<noteq> stateRepoList \<longrightarrow>
                 0 \<le> selectedRepo m \<and> selectedRepo m < len (repos m))
            \<and> (state m = stateVersionList \<longrightarrow>
                 0 \<le> selectedChart m \<and> selectedChart m < len (charts m)) \<longrightarrow>
              (\<exists>h rows s. View m = Inr (h, rows, s)
                 \<and> int (length rows) = getPageEnd m L - getPageStart m))
       \<and> (\<forall>m'. cursor m' = cursor m \<longrightarrow>
            getPageStart m' = getPageStart m \<and> getPageEnd m' L = getPageEnd m L)"
proof (intro conjI impI allI)
  show "getPageStart m = (cursor m div 10) * 10"
    using assms(3) by (rule getPageStart_nonneg)
  show "getPageEnd m L = min (getPageStart m + 10) L"
    by (rule getPageEnd_min)
next
  assume "loading m"
  with assms(1) show "\<exists>h s. View m = Inr (h, [], s)"
    by (rule View_loading)
next
  assume h: "\<not> loading m
            \<and> (state m \<noteq> stateRepoList \<longrightarrow>
                 0 \<le> selectedRepo m \<and> selectedRepo m < len (repos m))
            \<and> (state m = stateVersionList \<longrightarrow>
                 0 \<le> selectedChart m \<and> selectedChart m < len (charts m))"
  have "\<exists>h rows s. View m = Inr (h, rows, s)
           \<and> int (length rows) = getPageEnd m (displayedLen m) - getPageStart m"
    using assms h by (intro View_rows) simp_all
  then show "\<exists>h rows s. View m = Inr (h, rows, s)
                 \<and> int (length rows) = getPageEnd m L - getPageStart m"
    by (simp only: assms(2))
next
  fix m' :: model assume "cursor m' = cursor m"
  then show "getPageStart m' = getPageStart m"
    by (simp add: getPageStart_def getCurrentPage_def)
next
  fix m' :: model assume "cursor m' = cursor m"
  then show "getPageEnd m' L = getPageEnd m L"
    by (simp add: getPageEnd_def getPageStart_def getCurrentPage_def)
qed

text \<open>
  With 25 charts, the cursor on 23 and the loading flag clear the page is \<open>[20, 25)\<close>
  and \<open>View\<close> writes five rows; on the repository screen that is still loading it
  writes none.
\<close>

theorem C2_page_bounds_witness:
  "state scenarioB \<in> {stateRepoList, stateChartList, stateVersionList}
   \<and> displayedLen scenarioB = 25 \<and> 0 \<le> cursor scenarioB \<and> cursor scenarioB < 25
   \<and> \<not> loading scenarioB
   \<and> 0 \<le> selectedRepo scenarioB \<and> selectedRepo scenarioB < len (repos scenarioB)
   \<and> getPageStart scenarioB = 20 \<and> getPageEnd scenarioB 25 = 25
   \<and> (\<exists>h rows s. View scenarioB = Inr (h, rows, s) \<and> int (length rows) = 5)
   \<and> loading backWhileLoading \<and> displayedLen backWhileLoading = 1
   \<and> cursor backWhileLoading = 0
   \<and> (\<exists>h s. View backWhileLoading = Inr (h, [], s))
   \<and> cursor (scenarioB\<lparr>state := stateVersionList\<rparr>) = cursor scenarioB
   \<and> getPageStart (scenarioB\<lparr>state := stateVersionList\<rparr>) = 20"
proof -
  have st: "state scenarioB \<in> {stateRepoList, stateChartList, stateVersionList}"
    and sc: "state scenarioB = stateChartList"
    and d: "25 = displayedLen scenarioB" and c: "cursor scenarioB = 23"
    and nl: "\<not> loading scenarioB"
    and sr: "0 \<le> selectedRepo scenarioB" "selectedRepo scenarioB < len (repos scenarioB)"
    by (simp_all add: scenarioB_def initialModel_def displayedLen_def len_def)
  have h1: "0 \<le> cursor scenarioB" and h2: "cursor scenarioB < 25"
    by (simp_all add: c)
  note b = C2_page_bounds [OF st d h1 h2]
  have ps: "getPageStart scenarioB = 20"
    using conjunct1 [OF b] by (simp add: c)
  have pe: "getPageEnd scenarioB 25 = 25"
    using conjunct1 [OF conjunct2 [OF b]] by (simp add: ps)
  have "\<exists>h rows s. View scenarioB = Inr (h, rows, s)
          \<and> int (length rows) = getPageEnd scenarioB 25 - getPageStart scenarioB"
    using conjunct1 [OF conjunct2 [OF conjunct2 [OF conjunct2 [OF b]]]] nl sr sc by simp
  then have rows: "\<exists>h rows s. View scenarioB = Inr (h, rows, s) \<and> int (length rows) = 5"
    by (simp add: ps pe)
  have same: "cursor (scenarioB\<lparr>state := stateVersionList\<rparr>) = cursor scenarioB"
    by simp
  have ps': "getPageStart (scenarioB\<lparr>state := stateVersionList\<rparr>) = 20"
    using conjunct2 [OF conjunct2 [OF conjunct2 [OF conjunct2 [OF b]]]] same ps by metis
  have st0: "state backWhileLoading \<in> {stateRepoList, stateChartList, stateVersionList}"
    and d0: "1 = displayedLen backWhileLoading" and c0: "cursor backWhileLoading = 0"
    and l0: "loading backWhileLoading"
    by (simp_all add: backWhileLoading_def initialModel_def displayedLen_def len_def argo_def)
  have g1: "0 \<le> cursor backWhileLoading" and g2: "cursor backWhileLoading < 1"
    by (simp_all add: c0)
  have none: "\<exists>h s. View backWhileLoading = Inr (h, [], s)"
    using conjunct1 [OF conjunct2 [OF conjunct2 [OF C2_page_bounds [OF st0 d0 g1 g2]]]] l0
    by blast
  from st d [symmetric] h1 h2 nl sr ps pe rows l0 d0 [symmetric] c0 none same ps'
  show ?thesis by blast
qed

section \<open>Key handling\<close>

lemmas key_defs = updateKey_def keyUp_def keyDown_def keyEnter_def keyBack_def
  keyDefault_def numberShortcut_def

lemma Update_up:
  "k = ''up'' \<or> k = ''k'' \<Longrightarrow> Update m (KeyMsg k) = Inr (keyUp m, None)"
  by (auto simp: updateKey_def)

lemma Update_down:
  "k = ''down'' \<or> k = ''j'' \<Longrightarrow> Update m (KeyMsg k) = Inr (keyDown m, None)"
  by (auto simp: updateKey_def)

lemma keyUp_cursor:
  "keyUp m = m\<lparr>cursor := (if state m \<in> {stateRepoList, stateChartList, stateVersionList}
                               \<and> cursor m > 0 then cursor m - 1 else cursor m)\<rparr>"
  by (cases "state m") (simp_all add: keyUp_def)

lemma keyDown_cursor:
  "keyDown m = m\<lparr>cursor := (if state m \<in> {stateRepoList, stateChartList, stateVersionList}
                               \<and> cursor m < displayedLen m - 1 then cursor m + 1 else cursor m)\<rparr>"
  by (cases "state m") (simp_all add: keyDown_def displayedLen_def)

lemma Update_key_stateError:
  "state m = stateError \<Longrightarrow>
   Update m (KeyMsg k) = Inr (m, if k = ''ctrl+c'' \<or> k = ''q'' then Some Quit else None)"
  by (simp add: key_defs split: option.split)

lemma run_keys_stateError:
  "state m = stateError \<Longrightarrow> run m (map KeyMsg ks) = Inr m"
  by (induction ks) (simp_all add: Update_key_stateError del: Update.simps)

lemma Update_key_stateComplete:
  "state m = stateComplete \<Longrightarrow> k \<notin> {''up'', ''k'', ''down'', ''j''} \<Longrightarrow>
   Update m (KeyMsg k) = Inr (m, Some Quit)"
  by (simp add: key_defs)

lemma Update_key_no_list:
  assumes "state m \<in> {stateRepoUpdate, stateDownload}" and "k \<noteq> ''q''" and "k \<noteq> ''ctrl+c''"
  shows "Update m (KeyMsg k) = Inr (m, None)"
proof -
  have "state m = stateRepoUpdate \<or> state m = stateDownload"
    using assms(1) by simp
  then show ?thesis
    using assms(2,3) by (elim disjE) (simp_all add: key_defs split: option.split)
qed

lemma getPageStart_zero: "cursor m = 0 \<Longrightarrow> getPageStart m = 0"
  by (simp add: getPageStart_def getCurrentPage_def)

lemma Update_key_empty_list:
  assumes "state m \<in> {stateRepoList, stateChartList, stateVersionList}"
    and "displayedLen m = 0" and "cursor m = 0"
    and "k \<noteq> ''q''" and "k \<noteq> ''ctrl+c''" and "k \<noteq> ''backspace''" and "k \<noteq> ''esc''"
  shows "Update m (KeyMsg k) = Inr (m, None)"
proof -
  have "state m = stateRepoList \<or> state m = stateChartList \<or> state m = stateVersionList"
    using assms(1) by simp
  then show ?thesis
    using assms(2-7)
    by (elim disjE)
       (simp_all add: key_defs displayedLen_def getPageStart_zero split: option.split)
qed

text \<open>
  No case of the key switch reads \<open>m.loading\<close>: with the flag set, a key does what it
  does with the flag clear, and the flag stays set.
\<close>

lemma Update_key_loading:
  "Update (m\<lparr>loading := True\<rparr>) (KeyMsg k) =
     (case Update (m\<lparr>loading := False\<rparr>) (KeyMsg k) of
        Inl p \<Rightarrow> Inl p
      | Inr (m', c) \<Rightarrow> Inr (m'\<lparr>loading := True\<rparr>, c))"
  by (cases "state m")
     (simp_all add: key_defs issueLoadCharts_def issueLoadVersions_def issueDownloadValues_def
        getPageStart_def getCurrentPage_def Let_def split: option.split sum.split)

subsection \<open>Number shortcuts\<close>

lemma Atoi_single: "Atoi [c] = digitVal c"
  by (auto simp: Atoi_def digitVal_def Let_def split: option.splits)

text \<open>
  A digit key from \<open>1\<close> to \<open>9\<close> reaches the switch of lines 349-381 with its value. On
  the repository screen it selects index \<open>pageStart + n - 1\<close> when that index is below
  the length of the list, and does nothing otherwise.
\<close>

lemma digit_key_shortcut:
  assumes "state m \<noteq> stateComplete" and "digitVal c = Some n" and "1 \<le> n"
  shows "Update m (KeyMsg [c]) = numberShortcut m n"
  using assms
  by (auto simp: updateKey_def keyDefault_def Atoi_single digitVal_def pageSize_def Let_def
      split: if_splits)

lemma numberShortcut_stateRepoList:
  assumes "state m = stateRepoList" and "0 \<le> cursor m" and "1 \<le> n"
  shows "numberShortcut m n =
     (if getPageStart m + n - 1 < len (repos m)
      then Inr (m\<lparr>selectedRepo := getPageStart m + n - 1, cursor := 0, loading := True,
                   state := stateChartList\<rparr>,
                Some (LoadCharts (HelmRepo.Name (repos m ! nat (getPageStart m + n - 1)))))
      else Inr (m, None))"
  using assms getPageStart_bounds(1) [OF assms(2)]
  by (simp add: numberShortcut_def issueLoadCharts_def at_def Let_def)

text \<open>
  C1. The digit key \<open>0\<close> is to select the item at \<open>pageStart + 9\<close>. On the repository
  screen with ten repositories loaded and the cursor on the first page that item exists
  (\<open>r10\<close>), the key \<open>9\<close> selects index 8, and the key \<open>0\<close> returns the session as it
  was, with no command: \<open>strconv.Atoi\<close> gives 0 and the guard \<open>num >= 1\<close> of line 348
  refuses it.
\<close>

theorem C1_zero_key_ignored:
  "run initialModel [repoUpdateMsg, reposLoadedMsg tenRepos] = Inr tenRepoList
   \<and> at (repos tenRepoList) (getPageStart tenRepoList + 9) = Inr (repo ''r10'')
   \<and> Update tenRepoList (KeyMsg ''0'') = Inr (tenRepoList, None)
   \<and> Update tenRepoList (KeyMsg ''9'') =
       Inr (tenRepoList\<lparr>selectedRepo := 8, cursor := 0, loading := True,
              state := stateChartList\<rparr>, Some (LoadCharts ''r9''))"
  by (simp add: tenRepoList_def tenRepos_def initialModel_def key_defs Atoi_single digitVal_def
      getPageStart_def getCurrentPage_def pageSize_def at_def len_def issueLoadCharts_def repo_def)

section \<open>Failure\<close>

text \<open>
  C3, as stated, at a session the program reaches: the first of two chart fetches fails
  and the session is on the error screen; the result of the second fetch arrives and
  \<open>Update\<close> stores its charts. An event other than quit has changed the session.
\<close>

theorem C3_counterexample:
  "run initialModel raceTrace = Inr failedSession
   \<and> state failedSession = stateError
   \<and> Update failedSession (chartsLoadedMsg [argoCd]) = Inr (failedSession\<lparr>charts := [argoCd]\<rparr>, None)
   \<and> charts (failedSession\<lparr>charts := [argoCd]\<rparr>) \<noteq> charts failedSession"
  by (simp add: raceTrace_def failedSession_def initialModel_def key_defs
      at_def len_def issueLoadCharts_def argo_def)

text \<open>
  C3, amended. A failure message moves every session to the error screen and stores
  its text unchanged. On the error screen no key press changes any field of the session,
  for one key and for any sequence of keys; the result of a fetch that arrives there is
  still stored.
\<close>

theorem C3_failure_absorbs_keys:
  "Update m (errorMsg e) = Inr (m\<lparr>loading := False, state := stateError, error := e\<rparr>, None)
   \<and> (state m = stateError \<longrightarrow>
        (\<exists>c. Update m (KeyMsg k) = Inr (m, c)) \<and> run m (map KeyMsg ks) = Inr m
        \<and> Update m (reposLoadedMsg rs) =
            Inr (m\<lparr>repos := rs, loading := False, state := stateRepoList, cursor := 0\<rparr>, None)
        \<and> Update m (chartsLoadedMsg cs) =
            Inr (m\<lparr>charts := cs, loading := False, cursor := 0\<rparr>, None)
        \<and> Update m (versionsLoadedMsg vs) =
            Inr (m\<lparr>versions := vs, loading := False, cursor := 0\<rparr>, None))"
proof (intro conjI impI)
  show "Update m (errorMsg e) =
          Inr (m\<lparr>loading := False, state := stateError, error := e\<rparr>, None)"
    by simp
next
  assume failed: "state m = stateError"
  show "\<exists>c. Update m (KeyMsg k) = Inr (m, c)"
    using Update_key_stateError [OF failed, of k] by blast
  show "run m (map KeyMsg ks) = Inr m"
    using failed by (rule run_keys_stateError)
  show "Update m (reposLoadedMsg rs) =
          Inr (m\<lparr>repos := rs, loading := False, state := stateRepoList, cursor := 0\<rparr>, None)"
    by simp
  show "Update m (chartsLoadedMsg cs) =
          Inr (m\<lparr>charts := cs, loading := False, cursor := 0\<rparr>, None)"
    by simp
  show "Update m (versionsLoadedMsg vs) =
          Inr (m\<lparr>versions := vs, loading := False, cursor := 0\<rparr>, None)"
    by simp
qed

theorem C3_failure_absorbs_keys_witness:
  "state failedSession = stateError
   \<and> (\<exists>c. Update failedSession (KeyMsg ''enter'') = Inr (failedSession, c))
   \<and> run failedSession (map KeyMsg [''up'', ''enter'', ''1'', ''esc'']) = Inr failedSession"
proof -
  have h: "state failedSession = stateError"
    by (simp add: failedSession_def)
  from C3_failure_absorbs_keys
         [of failedSession "[]" "''enter''" "[''up'', ''enter'', ''1'', ''esc'']"] h
  show ?thesis by blast
qed

section \<open>Back navigation\<close>

text \<open>
  C4. On the chart screen the back keys (\<open>backspace\<close>, \<open>esc\<close>) lead to the repository
  screen, put the cursor on \<open>selectedRepo\<close> and drop the charts; on the version screen
  they lead to the chart screen, put the cursor on \<open>selectedChart\<close> and drop the
  versions. Nothing else changes and no command is issued.
\<close>

theorem C4_back_navigation:
  assumes "k = ''backspace'' \<or> k = ''esc''"
  shows "(state m = stateChartList \<longrightarrow>
           Update m (KeyMsg k) =
             Inr (m\<lparr>state := stateRepoList, cursor := selectedRepo m, charts := []\<rparr>, None))
       \<and> (state m = stateVersionList \<longrightarrow>
           Update m (KeyMsg k) =
             Inr (m\<lparr>state := stateChartList, cursor := selectedChart m, versions := []\<rparr>, None))"
  using assms by (auto simp: updateKey_def keyBack_def)

theorem C4_back_navigation_witness:
  "state scenarioB = stateChartList
   \<and> Update scenarioB (KeyMsg ''esc'') =
       Inr (scenarioB\<lparr>state := stateRepoList, cursor := selectedRepo scenarioB, charts := []\<rparr>,
            None)
   \<and> state versionsScreen = stateVersionList
   \<and> Update versionsScreen (KeyMsg ''backspace'') =
       Inr (versionsScreen\<lparr>state := stateChartList, cursor := selectedChart versionsScreen,
              versions := []\<rparr>, None)"
proof -
  have a: "state scenarioB = stateChartList"
    by (simp add: scenarioB_def)
  have b: "state versionsScreen = stateVersionList"
    by (simp add: versionsScreen_def)
  have k1: "''esc'' = ''backspace'' \<or> ''esc'' = ''esc''"
    by simp
  have k2: "''backspace'' = ''backspace'' \<or> ''backspace'' = ''esc''"
    by simp
  from C4_back_navigation [OF k1, of scenarioB] C4_back_navigation [OF k2, of versionsScreen] a b
  show ?thesis by blast
qed

section \<open>Cursor movement\<close>

text \<open>
  C5. On a list screen whose displayed sequence has length \<open>L\<close>, the keys \<open>up\<close>/\<open>k\<close>
  and \<open>down\<close>/\<open>j\<close> change at most the cursor. From a cursor in \<open>[0, L - 1]\<close> with
  \<open>L > 0\<close> the new cursor is again in \<open>[0, L - 1]\<close>: \<open>up\<close> gives
  \<open>max 0 (cursor - 1)\<close> and \<open>down\<close> gives \<open>min (L - 1) (cursor + 1)\<close>, so neither wraps
  around. With \<open>L = 0\<close> and the cursor on 0 the cursor stays 0.
\<close>

theorem C5_cursor_clamped:
  assumes "state m \<in> {stateRepoList, stateChartList, stateVersionList}"
    and "L = displayedLen m"
  shows "(k = ''up'' \<or> k = ''k'' \<longrightarrow>
           (\<exists>c'. Update m (KeyMsg k) = Inr (m\<lparr>cursor := c'\<rparr>, None)
              \<and> (0 < L \<and> 0 \<le> cursor m \<and> cursor m < L \<longrightarrow>
                   0 \<le> c' \<and> c' < L \<and> c' = max 0 (cursor m - 1))
              \<and> (L = 0 \<and> cursor m = 0 \<longrightarrow> c' = 0)))
       \<and> (k = ''down'' \<or> k = ''j'' \<longrightarrow>
           (\<exists>c'. Update m (KeyMsg k) = Inr (m\<lparr>cursor := c'\<rparr>, None)
              \<and> (0 < L \<and> 0 \<le> cursor m \<and> cursor m < L \<longrightarrow>
                   0 \<le> c' \<and> c' < L \<and> c' = min (L - 1) (cursor m + 1))
              \<and> (L = 0 \<and> cursor m = 0 \<longrightarrow> c' = 0)))"
proof (intro conjI impI)
  assume k: "k = ''up'' \<or> k = ''k''"
  let ?c = "if cursor m > 0 then cursor m - 1 else cursor m"
  have "Update m (KeyMsg k) = Inr (m\<lparr>cursor := ?c\<rparr>, None)"
    using assms(1) by (simp only: Update_up [OF k] keyUp_cursor) simp
  moreover have "0 < L \<and> 0 \<le> cursor m \<and> cursor m < L \<longrightarrow>
                   0 \<le> ?c \<and> ?c < L \<and> ?c = max 0 (cursor m - 1)"
    by auto
  moreover have "L = 0 \<and> cursor m = 0 \<longrightarrow> ?c = 0"
    by simp
  ultimately show "\<exists>c'. Update m (KeyMsg k) = Inr (m\<lparr>cursor := c'\<rparr>, None)
              \<and> (0 < L \<and> 0 \<le> cursor m \<and> cursor m < L \<longrightarrow>
                   0 \<le> c' \<and> c' < L \<and> c' = max 0 (cursor m - 1))
              \<and> (L = 0 \<and> cursor m = 0 \<longrightarrow> c' = 0)"
    by blast
next
  assume k: "k = ''down'' \<or> k = ''j''"
  let ?c = "if cursor m < L - 1 then cursor m + 1 else cursor m"
  have "Update m (KeyMsg k) = Inr (m\<lparr>cursor := ?c\<rparr>, None)"
    using assms by (simp only: Update_down [OF k] keyDown_cursor) simp
  moreover have "0 < L \<and> 0 \<le> cursor m \<and> cursor m < L \<longrightarrow>
                   0 \<le> ?c \<and> ?c < L \<and> ?c = min (L - 1) (cursor m + 1)"
    by auto
  moreover have "L = 0 \<and> cursor m = 0 \<longrightarrow> ?c = 0"
    by simp
  ultimately show "\<exists>c'. Update m (KeyMsg k) = Inr (m\<lparr>cursor := c'\<rparr>, None)
              \<and> (0 < L \<and> 0 \<le> cursor m \<and> cursor m < L \<longrightarrow>
                   0 \<le> c' \<and> c' < L \<and> c' = min (L - 1) (cursor m + 1))
              \<and> (L = 0 \<and> cursor m = 0 \<longrightarrow> c' = 0)"
    by blast
qed

text \<open>
  With 25 charts and the cursor on 23, \<open>down\<close> gives 24 and a second \<open>down\<close> stays on
  24; \<open>up\<close> gives 22. On the chart screen with no charts the cursor stays 0.
\<close>

theorem C5_cursor_clamped_witness:
  "state scenarioB \<in> {stateRepoList, stateChartList, stateVersionList}
   \<and> displayedLen scenarioB = 25 \<and> cursor scenarioB = 23
   \<and> Update scenarioB (KeyMsg ''down'') = Inr (scenarioB\<lparr>cursor := 24\<rparr>, None)
   \<and> Update (scenarioB\<lparr>cursor := 24\<rparr>) (KeyMsg ''j'') = Inr (scenarioB\<lparr>cursor := 24\<rparr>, None)
   \<and> Update scenarioB (KeyMsg ''up'') = Inr (scenarioB\<lparr>cursor := 22\<rparr>, None)
   \<and> displayedLen loadingCharts = 0 \<and> cursor loadingCharts = 0
   \<and> Update loadingCharts (KeyMsg ''down'') = Inr (loadingCharts, None)
   \<and> Update loadingCharts (KeyMsg ''k'') = Inr (loadingCharts, None)"
proof -
  have s: "state scenarioB \<in> {stateRepoList, stateChartList, stateVersionList}"
    and d: "25 = displayedLen scenarioB" and c: "cursor scenarioB = 23"
    by (simp_all add: scenarioB_def displayedLen_def len_def)
  have s24: "state (scenarioB\<lparr>cursor := 24\<rparr>) \<in> {stateRepoList, stateChartList, stateVersionList}"
    and d24: "25 = displayedLen (scenarioB\<lparr>cursor := 24\<rparr>)"
    by (simp_all add: scenarioB_def displayedLen_def len_def)
  have s0: "state loadingCharts \<in> {stateRepoList, stateChartList, stateVersionList}"
    and d0: "0 = displayedLen loadingCharts" and c0: "cursor loadingCharts = 0"
    by (simp_all add: loadingCharts_def initialModel_def displayedLen_def len_def)
  have r0: "loadingCharts\<lparr>cursor := 0\<rparr> = loadingCharts"
    by (simp add: loadingCharts_def initialModel_def)
  have t1: "Update scenarioB (KeyMsg ''down'') = Inr (scenarioB\<lparr>cursor := 24\<rparr>, None)"
    using C5_cursor_clamped [OF s d, of "''down''"] by (simp add: c del: Update.simps)
  have t2: "Update (scenarioB\<lparr>cursor := 24\<rparr>) (KeyMsg ''j'') = Inr (scenarioB\<lparr>cursor := 24\<rparr>, None)"
    using C5_cursor_clamped [OF s24 d24, of "''j''"] by (simp del: Update.simps)
  have t3: "Update scenarioB (KeyMsg ''up'') = Inr (scenarioB\<lparr>cursor := 22\<rparr>, None)"
    using C5_cursor_clamped [OF s d, of "''up''"] by (simp add: c del: Update.simps)
  have t4: "Update loadingCharts (KeyMsg ''down'') = Inr (loadingCharts, None)"
    using C5_cursor_clamped [OF s0 d0, of "''down''"] by (simp add: c0 r0 del: Update.simps)
  have t5: "Update loadingCharts (KeyMsg ''k'') = Inr (loadingCharts, None)"
    using C5_cursor_clamped [OF s0 d0, of "''k''"] by (simp add: c0 r0 del: Update.simps)
  from s d [symmetric] c t1 t2 t3 d0 [symmetric] c0 t4 t5 show ?thesis
    by blast
qed

text \<open>
  C10. The keys \<open>up\<close>, \<open>k\<close>, \<open>down\<close> and \<open>j\<close> never panic, issue no command and leave
  the screen, the three loaded sequences, the three selection indices, the loading flag
  and the error and message strings as they were, in every session.
\<close>

theorem C10_cursor_keys_frame:
  assumes "k \<in> {''up'', ''k'', ''down'', ''j''}"
  shows "\<exists>m'. Update m (KeyMsg k) = Inr (m', None)
          \<and> state m' = state m \<and> repos m' = repos m \<and> charts m' = charts m
          \<and> versions m' = versions m \<and> selectedRepo m' = selectedRepo m
          \<and> selectedChart m' = selectedChart m \<and> selectedVersion m' = selectedVersion m
          \<and> loading m' = loading m \<and> error m' = error m \<and> message m' = message m
          \<and> m' = m\<lparr>cursor := cursor m'\<rparr>"
proof -
  have "k = ''up'' \<or> k = ''k'' \<or> k = ''down'' \<or> k = ''j''"
    using assms by simp
  then consider "k = ''up'' \<or> k = ''k''" | "k = ''down'' \<or> k = ''j''"
    by blast
  then show ?thesis
  proof cases
    case 1
    then show ?thesis
      by (simp only: Update_up keyUp_cursor) simp
  next
    case 2
    then show ?thesis
      by (simp only: Update_down keyDown_cursor) simp
  qed
qed

theorem C10_cursor_keys_frame_witness:
  "''down'' \<in> {''up'', ''k'', ''down'', ''j''}
   \<and> (\<exists>m'. Update scenarioB (KeyMsg ''down'') = Inr (m', None)
          \<and> state m' = state scenarioB \<and> repos m' = repos scenarioB
          \<and> charts m' = charts scenarioB \<and> versions m' = versions scenarioB
          \<and> selectedRepo m' = selectedRepo scenarioB
          \<and> selectedChart m' = selectedChart scenarioB
          \<and> selectedVersion m' = selectedVersion scenarioB
          \<and> loading m' = loading scenarioB \<and> error m' = error scenarioB
          \<and> message m' = message scenarioB
          \<and> m' = scenarioB\<lparr>cursor := cursor m'\<rparr>)"
proof -
  have h: "''down'' \<in> {''up'', ''k'', ''down'', ''j''}"
    by simp
  from h C10_cursor_keys_frame [OF h, of scenarioB] show ?thesis
    by (rule conjI)
qed

section \<open>Keys while a fetch is in flight\<close>

text \<open>
  C6, as stated, at a session the program reaches: a repository has been selected, the
  chart fetch is in flight and the loading flag is set; the back key \<open>esc\<close> returns to
  the repository screen.
\<close>

theorem C6_counterexample:
  "run initialModel [repoUpdateMsg, reposLoadedMsg [argo], KeyMsg ''enter''] = Inr loadingCharts
   \<and> loading loadingCharts
   \<and> Update loadingCharts (KeyMsg ''esc'') = Inr (loadingCharts\<lparr>state := stateRepoList\<rparr>, None)
   \<and> state (loadingCharts\<lparr>state := stateRepoList\<rparr>) \<noteq> state loadingCharts"
  by (simp add: loadingCharts_def initialModel_def key_defs
      at_def len_def issueLoadCharts_def argo_def)

text \<open>
  C6, amended. On the screens \<open>stateRepoUpdate\<close> and \<open>stateDownload\<close> every key
  other than the quit keys leaves the session unchanged and issues no command; on a list
  screen whose sequence is empty, with the cursor on 0, every key other than the quit
  and back keys does the same; and the loading flag is never read: with the flag set
  every key does what it does with the flag clear.
\<close>

theorem C6_navigation_while_loading:
  "(k \<noteq> ''q'' \<and> k \<noteq> ''ctrl+c'' \<and> state m \<in> {stateRepoUpdate, stateDownload} \<longrightarrow>
      Update m (KeyMsg k) = Inr (m, None))
   \<and> (k \<noteq> ''q'' \<and> k \<noteq> ''ctrl+c''
        \<and> state m \<in> {stateRepoList, stateChartList, stateVersionList}
        \<and> displayedLen m = 0 \<and> cursor m = 0 \<and> k \<noteq> ''backspace'' \<and> k \<noteq> ''esc'' \<longrightarrow>
          Update m (KeyMsg k) = Inr (m, None))
   \<and> Update (m\<lparr>loading := True\<rparr>) (KeyMsg k) =
        (case Update (m\<lparr>loading := False\<rparr>) (KeyMsg k) of
           Inl p \<Rightarrow> Inl p
         | Inr (m', c) \<Rightarrow> Inr (m'\<lparr>loading := True\<rparr>, c))"
proof (intro conjI impI)
  assume "k \<noteq> ''q'' \<and> k \<noteq> ''ctrl+c'' \<and> state m \<in> {stateRepoUpdate, stateDownload}"
  then show "Update m (KeyMsg k) = Inr (m, None)"
    by (intro Update_key_no_list) simp_all
next
  assume "k \<noteq> ''q'' \<and> k \<noteq> ''ctrl+c''
        \<and> state m \<in> {stateRepoList, stateChartList, stateVersionList}
        \<and> displayedLen m = 0 \<and> cursor m = 0 \<and> k \<noteq> ''backspace'' \<and> k \<noteq> ''esc''"
  then show "Update m (KeyMsg k) = Inr (m, None)"
    by (intro Update_key_empty_list) simp_all
next
  show "Update (m\<lparr>loading := True\<rparr>) (KeyMsg k) =
            (case Update (m\<lparr>loading := False\<rparr>) (KeyMsg k) of
               Inl p \<Rightarrow> Inl p
             | Inr (m', c) \<Rightarrow> Inr (m'\<lparr>loading := True\<rparr>, c))"
    by (rule Update_key_loading)
qed

text \<open>
  While the index is refreshed, \<open>enter\<close> does nothing; while the charts of a
  repository load, the shortcut \<open>1\<close> does nothing.
\<close>

theorem C6_navigation_while_loading_witness:
  "loading initialModel \<and> state initialModel \<in> {stateRepoUpdate, stateDownload}
   \<and> Update initialModel (KeyMsg ''enter'') = Inr (initialModel, None)
   \<and> loading loadingCharts
   \<and> state loadingCharts \<in> {stateRepoList, stateChartList, stateVersionList}
   \<and> displayedLen loadingCharts = 0 \<and> cursor loadingCharts = 0
   \<and> Update loadingCharts (KeyMsg ''1'') = Inr (loadingCharts, None)"
proof -
  have i: "loading initialModel" "state initialModel \<in> {stateRepoUpdate, stateDownload}"
    by (simp_all add: initialModel_def)
  have l: "loading loadingCharts"
    "state loadingCharts \<in> {stateRepoList, stateChartList, stateVersionList}"
    "displayedLen loadingCharts = 0" "cursor loadingCharts = 0"
    by (simp_all add: loadingCharts_def initialModel_def displayedLen_def len_def)
  have e: "''enter'' \<noteq> ''q''" "''enter'' \<noteq> ''ctrl+c''"
    by simp_all
  have o: "''1'' \<noteq> ''q''" "''1'' \<noteq> ''ctrl+c''" "''1'' \<noteq> ''backspace''" "''1'' \<noteq> ''esc''"
    by simp_all
  have t1: "Update initialModel (KeyMsg ''enter'') = Inr (initialModel, None)"
    using conjunct1 [OF C6_navigation_while_loading [of "''enter''" initialModel]] e i(2)
    by blast
  have t2: "Update loadingCharts (KeyMsg ''1'') = Inr (loadingCharts, None)"
    using conjunct1 [OF conjunct2 [OF C6_navigation_while_loading [of "''1''" loadingCharts]]]
      l(2-4) o by blast
  from i l t1 t2 show ?thesis by blast
qed

section \<open>The index refresh\<close>

text \<open>
  C7, as stated, at the initial session: after \<open>repoUpdateMsg\<close> the screen is still
  \<open>stateRepoUpdate\<close>, not \<open>stateRepoList\<close>.
\<close>

theorem C7_counterexample:
  "Update initialModel repoUpdateMsg = Inr (initialModel, Some LoadRepos)
   \<and> state initialModel = stateRepoUpdate \<and> state initialModel \<noteq> stateRepoList"
  by (simp add: initialModel_def)

text \<open>
  C7, amended. \<open>repoUpdateMsg\<close> sets the loading flag, leaves the screen and every
  other field as they were and issues \<open>loadRepos\<close>. The session reaches
  \<open>stateRepoList\<close> when the result of that fetch, \<open>reposLoadedMsg\<close>, arrives: it
  stores the repositories, clears the loading flag and puts the cursor on 0.
\<close>

theorem C7_index_refreshed:
  "Update m repoUpdateMsg = Inr (m\<lparr>loading := True\<rparr>, Some LoadRepos)
   \<and> state (m\<lparr>loading := True\<rparr>) = state m
   \<and> Update (m\<lparr>loading := True\<rparr>) (reposLoadedMsg rs) =
       Inr (m\<lparr>repos := rs, loading := False, state := stateRepoList, cursor := 0\<rparr>, None)"
  by simp

section \<open>Terminal screens\<close>

text \<open>
  C8, as stated, at a session the program reaches: \<open>helm repo update\<close> has failed, the
  session is on the error screen, and \<open>enter\<close> returns it unchanged with no command.
\<close>

theorem C8_counterexample:
  "run initialModel [errorMsg ''Failed to update repos: exit status 1''] = Inr startFailed
   \<and> state startFailed = stateError
   \<and> Update startFailed (KeyMsg ''enter'') = Inr (startFailed, None)
   \<and> (None :: cmd option) \<noteq> Some Quit"
  by (simp add: startFailed_def initialModel_def key_defs)

text \<open>
  C8, amended. On the complete screen every key other than the cursor keys \<open>up\<close>,
  \<open>k\<close>, \<open>down\<close> and \<open>j\<close> returns \<open>tea.Quit\<close>. On the error screen the quit keys
  \<open>q\<close> and \<open>ctrl+c\<close> return \<open>tea.Quit\<close> and every other key returns the session
  unchanged with no command.
\<close>

theorem C8_terminal_screens:
  "(state m = stateComplete \<and> k \<notin> {''up'', ''k'', ''down'', ''j''} \<longrightarrow>
      Update m (KeyMsg k) = Inr (m, Some Quit))
   \<and> (state m = stateError \<longrightarrow>
      Update m (KeyMsg k) = Inr (m, if k = ''q'' \<or> k = ''ctrl+c'' then Some Quit else None))"
proof (intro conjI impI)
  assume "state m = stateComplete \<and> k \<notin> {''up'', ''k'', ''down'', ''j''}"
  then show "Update m (KeyMsg k) = Inr (m, Some Quit)"
    by (intro Update_key_stateComplete) simp_all
next
  assume e: "state m = stateError"
  show "Update m (KeyMsg k) = Inr (m, if k = ''q'' \<or> k = ''ctrl+c'' then Some Quit else None)"
    by (simp only: Update_key_stateError [OF e] disj_commute)
qed

theorem C8_terminal_screens_witness:
  "state completeSession = stateComplete \<and> ''x'' \<notin> {''up'', ''k'', ''down'', ''j''}
   \<and> Update completeSession (KeyMsg ''x'') = Inr (completeSession, Some Quit)
   \<and> state startFailed = stateError
   \<and> Update startFailed (KeyMsg ''q'') = Inr (startFailed, Some Quit)"
proof -
  have c: "state completeSession = stateComplete"
    by (simp add: completeSession_def)
  have x: "''x'' \<notin> {''up'', ''k'', ''down'', ''j''}"
    by simp
  have f: "state startFailed = stateError"
    by (simp add: startFailed_def)
  have t1: "Update completeSession (KeyMsg ''x'') = Inr (completeSession, Some Quit)"
    using conjunct1 [OF C8_terminal_screens [of completeSession "''x''"]] c x by blast
  have "Update startFailed (KeyMsg ''q'') =
          Inr (startFailed, if ''q'' = ''q'' \<or> ''q'' = ''ctrl+c'' then Some Quit else None)"
    using conjunct2 [OF C8_terminal_screens [of startFailed "''q''"]] f by blast
  then have t2: "Update startFailed (KeyMsg ''q'') = Inr (startFailed, Some Quit)"
    by (simp del: Update.simps)
  from c x t1 f t2 show ?thesis by blast
qed

section \<open>The artifact file name\<close>

lemma Split_nonempty: "Split s sep \<noteq> []"
  by (induction s) (simp_all add: Let_def)

lemma Split_no_sep: "sep \<notin> set s \<Longrightarrow> Split s sep = [s]"
  by (induction s) (auto simp: Let_def)

lemma Split_append_sep: "Split (a @ sep # b) sep = Split a sep @ Split b sep"
  by (induction a) (simp_all add: Let_def Split_nonempty)

lemma takeWhile_stop:
  "\<forall>x\<in>set xs. P x \<Longrightarrow> \<not> P y \<Longrightarrow> takeWhile P (xs @ y # ys) = xs"
  by (induction xs) simp_all

text \<open>The last piece of \<open>strings.Split\<close> is what follows the last separator.\<close>

lemma last_Split: "last (Split s sep) = rev (takeWhile (\<lambda>c. c \<noteq> sep) (rev s))"
proof (cases "sep \<in> set s")
  case True
  then obtain a b where s: "s = a @ sep # b" and b: "sep \<notin> set b"
    by (auto dest: split_list_last)
  have "last (Split s sep) = b"
    by (simp add: s Split_append_sep Split_no_sep [OF b])
  moreover have "takeWhile (\<lambda>c. c \<noteq> sep) (rev b @ sep # rev a) = rev b"
    using b by (intro takeWhile_stop) auto
  ultimately show ?thesis by (simp add: s)
next
  case False
  then have tw: "takeWhile (\<lambda>c. c \<noteq> sep) (rev s) = rev s"
    by (auto simp: takeWhile_eq_all_conv)
  show ?thesis
    unfolding tw using False by (simp add: Split_no_sep)
qed

lemma artifactFilename_last:
  "artifactFilename q v =
     rev (takeWhile (\<lambda>c. c \<noteq> CHR ''/'') (rev q)) @ ''-'' @ v @ ''-default-values.yaml''"
proof -
  have "Split q (CHR ''/'') ! (length (Split q (CHR ''/'')) - 1) = last (Split q (CHR ''/''))"
    by (simp add: last_conv_nth Split_nonempty)
  then show ?thesis
    by (simp add: artifactFilename_def Let_def last_Split)
qed

lemma TrimPrefix_append: "TrimPrefix (p @ s) p = s"
  by (simp add: TrimPrefix_def)

text \<open>
  C9, as stated, at the qualified name \<open>argo/sub/cd\<close> of repository \<open>argo\<close>: with the
  prefix \<open>argo/\<close> stripped the name is \<open>sub/cd\<close>, and the file name is built from
  \<open>cd\<close>.
\<close>

theorem C9_counterexample:
  "artifactFilename ''argo/sub/cd'' ''1.0'' = ''cd-1.0-default-values.yaml''
   \<and> TrimPrefix ''argo/sub/cd'' (HelmRepo.Name argo @ ''/'') = ''sub/cd''
   \<and> artifactFilename ''argo/sub/cd'' ''1.0''
       \<noteq> TrimPrefix ''argo/sub/cd'' (HelmRepo.Name argo @ ''/'') @ ''-'' @ ''1.0'' @ ''-default-values.yaml''"
  by (simp add: artifactFilename_def TrimPrefix_def argo_def Let_def)

text \<open>
  C9, amended. For every qualified name \<open>q\<close> and version \<open>v\<close> the file name is
  \<open>baseName-v-default-values.yaml\<close> where \<open>baseName\<close> is what follows the last \<open>/\<close> of
  \<open>q\<close> (all of \<open>q\<close> when it has none). When \<open>q\<close> is \<open>repoName/base\<close> and \<open>base\<close> has no
  \<open>/\<close>, that is \<open>q\<close> with the prefix \<open>repoName/\<close> stripped. When the subprocess
  succeeds and the file is written, \<open>downloadValues\<close> returns
  \<open>downloadCompleteMsg\<close> with that file name, and \<open>Update\<close> then reaches
  \<open>stateComplete\<close> with the message \<open>Successfully downloaded: \<close> followed by the file
  name.
\<close>

theorem C9_artifact_filename:
  "artifactFilename q v =
     rev (takeWhile (\<lambda>c. c \<noteq> CHR ''/'') (rev q)) @ ''-'' @ v @ ''-default-values.yaml''
   \<and> (q = repoName @ ''/'' @ base \<and> CHR ''/'' \<notin> set base \<longrightarrow>
        TrimPrefix q (repoName @ ''/'') = base
        \<and> artifactFilename q v = base @ ''-'' @ v @ ''-default-values.yaml'')
   \<and> (writeFile (artifactFilename q v) values = None \<longrightarrow>
        downloadValues q v (Inr values) writeFile = downloadCompleteMsg (artifactFilename q v))
   \<and> (\<exists>m'. Update m (downloadCompleteMsg (artifactFilename q v)) = Inr (m', None)
        \<and> state m' = stateComplete
        \<and> message m' = ''Successfully downloaded: '' @ artifactFilename q v
        \<and> suffix (artifactFilename q v) (message m'))"
proof -
  have a: "artifactFilename q v =
     rev (takeWhile (\<lambda>c. c \<noteq> CHR ''/'') (rev q)) @ ''-'' @ v @ ''-default-values.yaml''"
    by (rule artifactFilename_last)
  have b: "q = repoName @ ''/'' @ base \<and> CHR ''/'' \<notin> set base \<longrightarrow>
        TrimPrefix q (repoName @ ''/'') = base
        \<and> artifactFilename q v = base @ ''-'' @ v @ ''-default-values.yaml''"
  proof (intro impI conjI)
    assume h: "q = repoName @ ''/'' @ base \<and> CHR ''/'' \<notin> set base"
    then show "TrimPrefix q (repoName @ ''/'') = base"
      using TrimPrefix_append [of "repoName @ ''/''" base] by simp
    have "takeWhile (\<lambda>c. c \<noteq> CHR ''/'') (rev base @ CHR ''/'' # rev repoName) = rev base"
      using h by (intro takeWhile_stop) auto
    then show "artifactFilename q v = base @ ''-'' @ v @ ''-default-values.yaml''"
      using h by (simp add: artifactFilename_last)
  qed
  have c: "writeFile (artifactFilename q v) values = None \<longrightarrow>
        downloadValues q v (Inr values) writeFile = downloadCompleteMsg (artifactFilename q v)"
    by (simp add: downloadValues_def Let_def)
  have d: "\<exists>m'. Update m (downloadCompleteMsg (artifactFilename q v)) = Inr (m', None)
        \<and> state m' = stateComplete
        \<and> message m' = ''Successfully downloaded: '' @ artifactFilename q v
        \<and> suffix (artifactFilename q v) (message m')"
    by (simp add: suffix_def)
  from a b c d show ?thesis by blast
qed

text \<open>
  Version \<open>5.46.8\<close> of \<open>argo/argo-cd\<close>: the file is
  \<open>argo-cd-5.46.8-default-values.yaml\<close>, and from the version screen the download
  ends on the complete screen with that name in the message.
\<close>

theorem C9_artifact_filename_witness:
  "''argo/argo-cd'' = ''argo'' @ ''/'' @ ''argo-cd'' \<and> CHR ''/'' \<notin> set ''argo-cd''
   \<and> TrimPrefix ''argo/argo-cd'' (''argo'' @ ''/'') = ''argo-cd''
   \<and> artifactFilename ''argo/argo-cd'' ''5.46.8'' = ''argo-cd-5.46.8-default-values.yaml''
   \<and> downloadValues ''argo/argo-cd'' ''5.46.8'' (Inr ''replicaCount: 1'') (\<lambda>f b. None)
       = downloadCompleteMsg ''argo-cd-5.46.8-default-values.yaml''
   \<and> Update (versionsScreen\<lparr>selectedVersion := 0, loading := True, state := stateDownload\<rparr>)
        (downloadCompleteMsg ''argo-cd-5.46.8-default-values.yaml'')
       = Inr (completeSession, None)"
proof -
  have h: "''argo/argo-cd'' = ''argo'' @ ''/'' @ ''argo-cd'' \<and> CHR ''/'' \<notin> set ''argo-cd''"
    by simp
  note t = C9_artifact_filename [of "''argo/argo-cd''" "''5.46.8''" "''argo''" "''argo-cd''"
      "\<lambda>f b. None" "''replicaCount: 1''"]
  have b: "TrimPrefix ''argo/argo-cd'' (''argo'' @ ''/'') = ''argo-cd''
        \<and> artifactFilename ''argo/argo-cd'' ''5.46.8'' = ''argo-cd'' @ ''-'' @ ''5.46.8'' @ ''-default-values.yaml''"
    using conjunct1 [OF conjunct2 [OF t]] h by blast
  then have n: "artifactFilename ''argo/argo-cd'' ''5.46.8'' = ''argo-cd-5.46.8-default-values.yaml''"
    by simp
  have "downloadValues ''argo/argo-cd'' ''5.46.8'' (Inr ''replicaCount: 1'') (\<lambda>f b. None)
       = downloadCompleteMsg (artifactFilename ''argo/argo-cd'' ''5.46.8'')"
    using conjunct1 [OF conjunct2 [OF conjunct2 [OF t]]] by simp
  then have c: "downloadValues ''argo/argo-cd'' ''5.46.8'' (Inr ''replicaCount: 1'') (\<lambda>f b. None)
       = downloadCompleteMsg ''argo-cd-5.46.8-default-values.yaml''"
    by (simp only: n)
  have d: "Update (versionsScreen\<lparr>selectedVersion := 0, loading := True, state := stateDownload\<rparr>)
        (downloadCompleteMsg ''argo-cd-5.46.8-default-values.yaml'')
       = Inr (completeSession, None)"
    by (simp add: completeSession_def versionsScreen_def initialModel_def)
  from h b n c d show ?thesis by blast
qed

end
